theory Spec2Isabelle
  imports Complex_Main "HOL-Library.Multiset"
begin

section \<open>Data model (schemas.py)\<close>

text \<open>
  The fee schemas of \<^verbatim>\<open>schemas.py\<close>. A \<^verbatim>\<open>Literal[...]\<close> field is a datatype, an
  \<^verbatim>\<open>Optional\<close> field an option. Python's \<^verbatim>\<open>float\<close> is rendered as an exact rational:
  sums, products and comparisons are those of the source, IEEE rounding is not modelled.
  Field names shared by several schemas carry a prefix, since record fields are global.
\<close>

datatype invoice_status = Unpaid | Partially_paid | Paid

datatype currency = INR | USD

datatype payment_method = Upi | Wallet | Card | Cash

datatype payment_provider = Razorpay | Phonepe | Stripe | Manual

record InvoiceItem =
  title :: string
  item_amount :: rat

record Invoice =
  inv_institution_id :: string
  inv_student_id :: string
  inv_currency :: currency
  items :: "InvoiceItem list"
  gst_percent :: rat
  status :: invoice_status
  due_date :: "string option"
  metadata :: "(string \<times> string) list"

record Payment =
  pay_institution_id :: string
  pay_invoice_id :: string
  pay_amount :: rat
  pay_method :: payment_method
  pay_provider :: "payment_provider option"
  pay_txn_ref :: "string option"

text \<open>The request bodies of \<^verbatim>\<open>main.py\<close>: here method, provider and currency are plain strings.\<close>

record CreateInvoiceRequest =
  cir_institution_id :: string
  cir_student_id :: string
  cir_items :: "InvoiceItem list"
  cir_gst_percent :: rat
  cir_currency :: "string option"
  cir_due_date :: "string option"

record RecordPaymentRequest =
  rpr_institution_id :: string
  rpr_invoice_id :: string
  rpr_amount :: rat
  rpr_method :: string
  rpr_provider :: "string option"
  rpr_txn_ref :: "string option"

text \<open>
  What a handler can raise: \<^verbatim>\<open>HTTPException(status_code, detail)\<close>, the validation error of a
  schema constructor, and the failure of a write when there is no store.
\<close>

datatype error = HTTPException nat string | ValidationError | StoreUnavailable

section \<open>Schema validation\<close>

text \<open>
  Constructing \<^verbatim>\<open>Payment(...)\<close> or \<^verbatim>\<open>Invoice(...)\<close> checks the \<^verbatim>\<open>Literal\<close> fields; a value
  outside the literal set raises. No schema constrains an amount or a percentage.
\<close>

definition method_of :: "string \<Rightarrow> payment_method option" where
  "method_of s =
     (if s = ''upi'' then Some Upi
      else if s = ''wallet'' then Some Wallet
      else if s = ''card'' then Some Card
      else if s = ''cash'' then Some Cash
      else None)"

definition provider_of :: "string \<Rightarrow> payment_provider option" where
  "provider_of s =
     (if s = ''razorpay'' then Some Razorpay
      else if s = ''phonepe'' then Some Phonepe
      else if s = ''stripe'' then Some Stripe
      else if s = ''manual'' then Some Manual
      else None)"

definition currency_of :: "string \<Rightarrow> currency option" where
  "currency_of s =
     (if s = ''INR'' then Some INR
      else if s = ''USD'' then Some USD
      else None)"

definition new_Payment ::
  "string \<Rightarrow> string \<Rightarrow> rat \<Rightarrow> string \<Rightarrow> string option \<Rightarrow> string option \<Rightarrow> error + Payment" where
  "new_Payment institution_id invoice_id amount method provider txn_ref =
     (case method_of method of
        None \<Rightarrow> Inl ValidationError
      | Some m \<Rightarrow>
          (case provider of
             None \<Rightarrow>
               Inr \<lparr>pay_institution_id = institution_id, pay_invoice_id = invoice_id,
                    pay_amount = amount, pay_method = m, pay_provider = None,
                    pay_txn_ref = txn_ref\<rparr>
           | Some pr \<Rightarrow>
               (case provider_of pr of
                  None \<Rightarrow> Inl ValidationError
                | Some pv \<Rightarrow>
                    Inr \<lparr>pay_institution_id = institution_id, pay_invoice_id = invoice_id,
                         pay_amount = amount, pay_method = m, pay_provider = Some pv,
                         pay_txn_ref = txn_ref\<rparr>)))"

definition new_Invoice ::
  "string \<Rightarrow> string \<Rightarrow> string \<Rightarrow> InvoiceItem list \<Rightarrow> rat \<Rightarrow> invoice_status \<Rightarrow> string option
     \<Rightarrow> error + Invoice" where
  "new_Invoice institution_id student_id cur its gst_pct st dd =
     (case currency_of cur of
        None \<Rightarrow> Inl ValidationError
      | Some c \<Rightarrow>
          Inr \<lparr>inv_institution_id = institution_id, inv_student_id = student_id,
               inv_currency = c, items = its, gst_percent = gst_pct, status = st,
               due_date = dd, metadata = []\<rparr>)"

section \<open>Object identifiers\<close>

text \<open>
  An object identifier is a 96-bit number, here a natural number. \<^verbatim>\<open>ObjectId\<close> belongs to
  the driver, not to this repository, so the parser is a parameter \<open>parse\<close> of everything
  that calls it: \<open>parse s = None\<close> when \<^verbatim>\<open>ObjectId(s)\<close> raises. \<^verbatim>\<open>to_oid\<close> turns a raise
  into \<^verbatim>\<open>HTTPException(400, "Invalid id")\<close>.
\<close>

definition to_oid :: "(string \<Rightarrow> nat option) \<Rightarrow> string \<Rightarrow> error + nat" where
  "to_oid parse id_str =
     (case parse id_str of
        Some oid \<Rightarrow> Inr oid
      | None \<Rightarrow> Inl (HTTPException 400 ''Invalid id''))"

text \<open>
  The string form of an identifier is 24 hexadecimal digits. \<open>hex_object_id\<close> is the parser
  used in the scenarios: it accepts the strings of 24 hexadecimal digits, in either case.
\<close>

definition hexval :: "char \<Rightarrow> nat option" where
  "hexval c =
     (let n = (of_char c :: nat) in
      if 48 \<le> n \<and> n \<le> 57 then Some (n - 48)
      else if 97 \<le> n \<and> n \<le> 102 then Some (n - 87)
      else if 65 \<le> n \<and> n \<le> 70 then Some (n - 55)
      else None)"

fun hex_to_nat :: "nat \<Rightarrow> string \<Rightarrow> nat option" where
  "hex_to_nat acc [] = Some acc"
| "hex_to_nat acc (c # cs) =
     (case hexval c of None \<Rightarrow> None | Some v \<Rightarrow> hex_to_nat (16 * acc + v) cs)"

definition hex_object_id :: "string \<Rightarrow> nat option" where
  "hex_object_id s = (if length s = 24 then hex_to_nat 0 s else None)"

definition hexchar :: "nat \<Rightarrow> char" where
  "hexchar d = (if d < 10 then char_of (48 + d) else char_of (87 + d))"

fun hex_str :: "nat \<Rightarrow> nat \<Rightarrow> string" where
  "hex_str 0 n = []"
| "hex_str (Suc w) n = hex_str w (n div 16) @ [hexchar (n mod 16)]"

definition str_oid :: "nat \<Rightarrow> string" where
  "str_oid oid = hex_str 24 oid"

section \<open>The document store\<close>

text \<open>
  The collections \<^verbatim>\<open>db["invoice"]\<close> and \<^verbatim>\<open>db["payment"]\<close>: documents in insertion order,
  each with its \<^verbatim>\<open>_id\<close>. Every document of a collection is the dump of the schema of that
  name, so every field is present and the defaults of \<^verbatim>\<open>.get(key, default)\<close> are never
  taken. The handle \<^verbatim>\<open>db\<close> of the source is a \<open>database option\<close>: \<open>None\<close> when unset.
\<close>

record database =
  invoice :: "(nat \<times> Invoice) list"
  payment :: "(nat \<times> Payment) list"
  next_oid :: nat

text \<open>
  Modelled from the spec: \<^verbatim>\<open>create_document\<close> lives in \<^verbatim>\<open>database.py\<close>, which is not among
  the sources. The spec gives the collaborator as \<^verbatim>\<open>insert(collection, record) -> id\<close> with
  store-generated unique string identifiers, and an unreachable store as a server-side error.
  The two functions below are \<^verbatim>\<open>create_document("payment", _)\<close> and
  \<^verbatim>\<open>create_document("invoice", _)\<close>.
\<close>

definition create_document_payment ::
  "Payment \<Rightarrow> database option \<Rightarrow> (error + string) \<times> database option" where
  "create_document_payment data db =
     (case db of
        None \<Rightarrow> (Inl StoreUnavailable, None)
      | Some d \<Rightarrow>
          (Inr (str_oid (next_oid d)),
           Some (d\<lparr>payment := payment d @ [(next_oid d, data)],
                   next_oid := Suc (next_oid d)\<rparr>)))"

definition create_document_invoice ::
  "Invoice \<Rightarrow> database option \<Rightarrow> (error + string) \<times> database option" where
  "create_document_invoice data db =
     (case db of
        None \<Rightarrow> (Inl StoreUnavailable, None)
      | Some d \<Rightarrow>
          (Inr (str_oid (next_oid d)),
           Some (d\<lparr>invoice := invoice d @ [(next_oid d, data)],
                   next_oid := Suc (next_oid d)\<rparr>)))"

text \<open>\<^verbatim>\<open>find_one({"_id": oid})\<close>: the first document with that identifier, if any.\<close>

definition find_one :: "(nat \<times> 'a) list \<Rightarrow> nat \<Rightarrow> (nat \<times> 'a) option" where
  "find_one coll oid = find (\<lambda>doc. fst doc = oid) coll"

text \<open>\<^verbatim>\<open>db["payment"].find({"invoice_id": s})\<close>: a comparison of strings, in insertion order.\<close>

definition find_payments :: "(nat \<times> Payment) list \<Rightarrow> string \<Rightarrow> (nat \<times> Payment) list" where
  "find_payments coll s = filter (\<lambda>doc. pay_invoice_id (snd doc) = s) coll"

text \<open>\<^verbatim>\<open>update_one({"_id": oid}, {"$set": {"status": s}})\<close>: the first match, one field.\<close>

fun update_one_status ::
  "(nat \<times> Invoice) list \<Rightarrow> nat \<Rightarrow> invoice_status \<Rightarrow> (nat \<times> Invoice) list" where
  "update_one_status [] oid s = []"
| "update_one_status (doc # docs) oid s =
     (if fst doc = oid then (fst doc, (snd doc)\<lparr>status := s\<rparr>) # docs
      else doc # update_one_status docs oid s)"

section \<open>Invoices and payments (main.py)\<close>

text \<open>
  \<^verbatim>\<open>create_invoice\<close>: the status passed to the schema is the constant \<^verbatim>\<open>"unpaid"\<close>; the request
  type has no status field. \<^verbatim>\<open>payload.currency or "INR"\<close> replaces an absent or empty
  currency.
\<close>

definition create_invoice ::
  "CreateInvoiceRequest \<Rightarrow> database option \<Rightarrow> (error + string) \<times> database option" where
  "create_invoice payload db =
     (case new_Invoice (cir_institution_id payload) (cir_student_id payload)
             (case cir_currency payload of
                None \<Rightarrow> ''INR''
              | Some c \<Rightarrow> if c = [] then ''INR'' else c)
             (cir_items payload) (cir_gst_percent payload) Unpaid (cir_due_date payload) of
        Inl e \<Rightarrow> (Inl e, db)
      | Inr ivc \<Rightarrow> create_document_invoice ivc db)"

text \<open>The locals of \<^verbatim>\<open>record_payment\<close>, lines 204 to 208, under the names the source gives them.\<close>

definition paid_total :: "(nat \<times> Payment) list \<Rightarrow> rat" where
  "paid_total ps = sum_list (map (\<lambda>p. pay_amount (snd p)) ps)"

definition items_total :: "Invoice \<Rightarrow> rat" where
  "items_total ivc = sum_list (map item_amount (items ivc))"

definition gst :: "Invoice \<Rightarrow> rat" where
  "gst ivc = gst_percent ivc * items_total ivc / 100"

definition due :: "Invoice \<Rightarrow> rat" where
  "due ivc = items_total ivc + gst ivc"

definition status_of :: "rat \<Rightarrow> rat \<Rightarrow> invoice_status" where
  "status_of paid d =
     (if paid \<ge> d - 1 / 100 then Paid
      else if paid > 0 then Partially_paid
      else Unpaid)"

text \<open>
  \<^verbatim>\<open>record_payment\<close>. The result pairs what the caller receives with the store as the call
  leaves it: a write made before an exception is raised stays.
\<close>

definition record_payment ::
  "(string \<Rightarrow> nat option) \<Rightarrow> RecordPaymentRequest \<Rightarrow> database option
     \<Rightarrow> (error + string) \<times> database option" where
  "record_payment parse payload db =
     (case new_Payment (rpr_institution_id payload) (rpr_invoice_id payload)
             (rpr_amount payload) (rpr_method payload) (rpr_provider payload)
             (rpr_txn_ref payload) of
        Inl e \<Rightarrow> (Inl e, db)
      | Inr pay \<Rightarrow>
          (case create_document_payment pay db of
             (Inl e, db1) \<Rightarrow> (Inl e, db1)
           | (Inr pid, db1) \<Rightarrow>
               (case db1 of
                  None \<Rightarrow> (Inr pid, db1)
                | Some d \<Rightarrow>
                    (case to_oid parse (rpr_invoice_id payload) of
                       Inl e \<Rightarrow> (Inl e, db1)
                     | Inr oid \<Rightarrow>
                         (case find_one (invoice d) oid of
                            None \<Rightarrow> (Inr pid, db1)
                          | Some ivc \<Rightarrow>
                              (Inr pid,
                               Some (d\<lparr>invoice :=
                                 update_one_status (invoice d) (fst ivc)
                                   (status_of
                                      (paid_total (find_payments (payment d)
                                         (rpr_invoice_id payload)))
                                      (due (snd ivc)))\<rparr>)))))))"

section \<open>The settlement algorithm as the specification words it\<close>



section \<open>Scenarios\<close>

text \<open>
  Concrete data on which the theorems below are instantiated: the tuition invoice of the
  specification's scenario (1000 plus 18 percent), an invoice whose amount due is exactly
  100, an invoice without items, and a store that holds the three under the identifiers
  0, 1 and 2.
\<close>

definition tuition_invoice :: Invoice where
  "tuition_invoice =
     \<lparr>inv_institution_id = ''inst-a'', inv_student_id = ''stu-1'', inv_currency = INR,
      items = [\<lparr>title = ''Tuition'', item_amount = 1000\<rparr>], gst_percent = 18,
      status = Unpaid, due_date = None, metadata = []\<rparr>"

definition hundred_invoice :: Invoice where
  "hundred_invoice =
     \<lparr>inv_institution_id = ''inst-a'', inv_student_id = ''stu-2'', inv_currency = INR,
      items = [\<lparr>title = ''Fee'', item_amount = 100\<rparr>], gst_percent = 0,
      status = Unpaid, due_date = None, metadata = []\<rparr>"

definition empty_invoice :: Invoice where
  "empty_invoice =
     \<lparr>inv_institution_id = ''inst-a'', inv_student_id = ''stu-3'', inv_currency = USD,
      items = [], gst_percent = 18,
      status = Unpaid, due_date = None, metadata = []\<rparr>"

definition scenario_db :: database where
  "scenario_db =
     \<lparr>invoice = [(0, tuition_invoice), (1, hundred_invoice), (2, empty_invoice)],
      payment = [], next_oid = 3\<rparr>"

definition id0 :: string where
  "id0 = ''000000000000000000000000''"



definition absent_id :: string where
  "absent_id = ''0000000000000000000000ff''"

definition scenario_request :: "string \<Rightarrow> string \<Rightarrow> rat \<Rightarrow> RecordPaymentRequest" where
  "scenario_request inst iid a =
     \<lparr>rpr_institution_id = inst, rpr_invoice_id = iid, rpr_amount = a,
      rpr_method = ''upi'', rpr_provider = Some ''razorpay'', rpr_txn_ref = None\<rparr>"

definition scenario_payment :: "string \<Rightarrow> string \<Rightarrow> rat \<Rightarrow> Payment" where
  "scenario_payment inst iid a =
     \<lparr>pay_institution_id = inst, pay_invoice_id = iid, pay_amount = a,
      pay_method = Upi, pay_provider = Some Razorpay, pay_txn_ref = None\<rparr>"



definition empty_invoice_request :: CreateInvoiceRequest where
  "empty_invoice_request =
     \<lparr>cir_institution_id = ''inst-a'', cir_student_id = ''stu-3'', cir_items = [],
      cir_gst_percent = 0, cir_currency = None, cir_due_date = None\<rparr>"

section \<open>Auxiliary facts\<close>


lemma find_one_fst: "find_one coll oid = Some doc \<Longrightarrow> fst doc = oid"
  by (induction coll) (auto simp: find_one_def split: if_splits)


lemma update_one_status_frame:
  "list_all2 (\<lambda>a b. fst b = fst a \<and> snd b = (snd a)\<lparr>status := status (snd b)\<rparr> \<and>
       (oid \<noteq> fst a \<longrightarrow> b = a)) coll (update_one_status coll oid s)"
  by (induction coll) (auto intro!: list.rel_refl)





text \<open>The four ways through \<^verbatim>\<open>record_payment\<close> when the store is there.\<close>

lemma record_payment_invalid:
  "new_Payment (rpr_institution_id payload) (rpr_invoice_id payload) (rpr_amount payload)
     (rpr_method payload) (rpr_provider payload) (rpr_txn_ref payload) = Inl e \<Longrightarrow>
   record_payment parse payload db = (Inl e, db)"
  by (simp add: record_payment_def)

lemma record_payment_bad_id:
  "new_Payment (rpr_institution_id payload) (rpr_invoice_id payload) (rpr_amount payload)
     (rpr_method payload) (rpr_provider payload) (rpr_txn_ref payload) = Inr pay \<Longrightarrow>
   to_oid parse (rpr_invoice_id payload) = Inl e \<Longrightarrow>
   record_payment parse payload (Some d) =
     (Inl e, Some (d\<lparr>payment := payment d @ [(next_oid d, pay)], next_oid := Suc (next_oid d)\<rparr>))"
  by (simp add: record_payment_def create_document_payment_def)

lemma record_payment_absent:
  "new_Payment (rpr_institution_id payload) (rpr_invoice_id payload) (rpr_amount payload)
     (rpr_method payload) (rpr_provider payload) (rpr_txn_ref payload) = Inr pay \<Longrightarrow>
   to_oid parse (rpr_invoice_id payload) = Inr oid \<Longrightarrow>
   find_one (invoice d) oid = None \<Longrightarrow>
   record_payment parse payload (Some d) =
     (Inr (str_oid (next_oid d)),
      Some (d\<lparr>payment := payment d @ [(next_oid d, pay)], next_oid := Suc (next_oid d)\<rparr>))"
  by (simp add: record_payment_def create_document_payment_def)

lemma record_payment_found:
  "new_Payment (rpr_institution_id payload) (rpr_invoice_id payload) (rpr_amount payload)
     (rpr_method payload) (rpr_provider payload) (rpr_txn_ref payload) = Inr pay \<Longrightarrow>
   to_oid parse (rpr_invoice_id payload) = Inr oid \<Longrightarrow>
   find_one (invoice d) oid = Some doc \<Longrightarrow>
   record_payment parse payload (Some d) =
     (Inr (str_oid (next_oid d)),
      Some (d\<lparr>invoice := update_one_status (invoice d) oid
                 (status_of (paid_total (find_payments (payment d @ [(next_oid d, pay)])
                    (rpr_invoice_id payload))) (due (snd doc))),
              payment := payment d @ [(next_oid d, pay)], next_oid := Suc (next_oid d)\<rparr>))"
  by (simp add: record_payment_def create_document_payment_def find_one_fst)

lemma new_Payment_fields:
  "new_Payment a b c m p t = Inr pay \<Longrightarrow>
   pay_institution_id pay = a \<and> pay_invoice_id pay = b \<and> pay_amount pay = c \<and>
   pay_txn_ref pay = t"
  by (auto simp: new_Payment_def split: option.splits)

lemma new_Payment_error: "new_Payment a b c m p t = Inl e \<Longrightarrow> e = ValidationError"
  by (auto simp: new_Payment_def split: option.splits)

text \<open>The scenario data, evaluated.\<close>

lemma scenario_new_Payment:
  "new_Payment (rpr_institution_id (scenario_request inst iid a))
     (rpr_invoice_id (scenario_request inst iid a)) (rpr_amount (scenario_request inst iid a))
     (rpr_method (scenario_request inst iid a)) (rpr_provider (scenario_request inst iid a))
     (rpr_txn_ref (scenario_request inst iid a)) = Inr (scenario_payment inst iid a)"
  by (simp add: scenario_request_def scenario_payment_def new_Payment_def method_of_def
      provider_of_def)

lemma scenario_invoice_id [simp]: "rpr_invoice_id (scenario_request inst iid a) = iid"
  by (simp add: scenario_request_def)

lemma req_to_oid_id0: "to_oid hex_object_id (rpr_invoice_id (scenario_request inst id0 a)) = Inr 0"
  by (simp add: to_oid_def hex_object_id_def id0_def hexval_def)



lemma req_to_oid_absent_id:
  "to_oid hex_object_id (rpr_invoice_id (scenario_request inst absent_id a)) = Inr 255"
  by (simp add: to_oid_def hex_object_id_def absent_id_def hexval_def)

lemma str_oid_3: "str_oid 3 = ''000000000000000000000003''"
  by code_simp



lemma scenario_find_0: "find_one (invoice scenario_db) 0 = Some (0, tuition_invoice)"
  by (simp add: find_one_def scenario_db_def)



lemma scenario_find_absent: "find_one (invoice scenario_db) 255 = None"
  by (simp add: find_one_def scenario_db_def)

section \<open>The settlement computed by record_payment\<close>



section \<open>Requests that name no invoice\<close>

text \<open>
  Claim C3, as stated, fails. With a well-formed identifier that no invoice carries,
  \<^verbatim>\<open>record_payment\<close> returns the new payment's identifier and the payment is in the store;
  with the identifier of an invoice of institution \<open>inst-a\<close> and a request made for
  \<open>inst-b\<close>, the invoice is found and its status rewritten. Neither call raises.
\<close>

theorem record_payment_missing_invoice_counterexample:
  "record_payment hex_object_id (scenario_request ''inst-a'' absent_id 500) (Some scenario_db) =
     (Inr ''000000000000000000000003'',
      Some (scenario_db\<lparr>payment := [(3, scenario_payment ''inst-a'' absent_id 500)],
         next_oid := 4\<rparr>))
   \<and> inv_institution_id tuition_invoice = ''inst-a''
   \<and> record_payment hex_object_id (scenario_request ''inst-b'' id0 500) (Some scenario_db) =
     (Inr ''000000000000000000000003'',
      Some (scenario_db\<lparr>invoice := [(0, tuition_invoice\<lparr>status := Partially_paid\<rparr>),
           (1, hundred_invoice), (2, empty_invoice)],
         payment := [(3, scenario_payment ''inst-b'' id0 500)],
         next_oid := 4\<rparr>))"
proof -
  have a: "record_payment hex_object_id (scenario_request ''inst-a'' absent_id 500) (Some scenario_db) =
     (Inr ''000000000000000000000003'',
      Some (scenario_db\<lparr>payment := [(3, scenario_payment ''inst-a'' absent_id 500)],
         next_oid := 4\<rparr>))"
    using record_payment_absent [OF scenario_new_Payment req_to_oid_absent_id
        scenario_find_absent]
    by (simp add: scenario_db_def str_oid_3)
  have b: "inv_institution_id tuition_invoice = ''inst-a''"
    by (simp add: tuition_invoice_def)
  have c: "record_payment hex_object_id (scenario_request ''inst-b'' id0 500) (Some scenario_db) =
     (Inr ''000000000000000000000003'',
      Some (scenario_db\<lparr>invoice := [(0, tuition_invoice\<lparr>status := Partially_paid\<rparr>),
           (1, hundred_invoice), (2, empty_invoice)],
         payment := [(3, scenario_payment ''inst-b'' id0 500)],
         next_oid := 4\<rparr>))"
    using record_payment_found [OF scenario_new_Payment req_to_oid_id0 scenario_find_0]
    by (simp add: scenario_db_def str_oid_3 find_payments_def paid_total_def
        scenario_payment_def status_of_def due_def gst_def items_total_def tuition_invoice_def)
  from a b c show ?thesis by blast
qed

text \<open>
  Claim C3, amended. \<^verbatim>\<open>record_payment\<close> has no not-found error: whenever the invoice
  identifier is well formed and the Payment schema accepts method and provider, the call
  succeeds, returns the new payment's identifier and leaves the payment in the store,
  whether or not an invoice carries the identifier and whatever its institution (the lookup
  is by \<^verbatim>\<open>_id\<close> alone). When no invoice carries it, the invoice collection is unchanged.
\<close>

theorem record_payment_no_invoice_check:
  assumes "new_Payment (rpr_institution_id payload) (rpr_invoice_id payload)
     (rpr_amount payload) (rpr_method payload) (rpr_provider payload)
     (rpr_txn_ref payload) = Inr pay"
    and "to_oid parse (rpr_invoice_id payload) = Inr oid"
  shows "\<exists>d'. record_payment parse payload (Some d) = (Inr (str_oid (next_oid d)), Some d') \<and>
           payment d' = payment d @ [(next_oid d, pay)] \<and>
           (find_one (invoice d) oid = None \<longrightarrow> invoice d' = invoice d)"
proof (cases "find_one (invoice d) oid")
  case None
  with assms show ?thesis by (simp add: record_payment_absent)
next
  case (Some doc)
  with assms show ?thesis by (simp add: record_payment_found)
qed

theorem record_payment_no_invoice_check_witness:
  "\<exists>d'. record_payment hex_object_id (scenario_request ''inst-a'' absent_id 500) (Some scenario_db) =
       (Inr (str_oid (next_oid scenario_db)), Some d') \<and>
     payment d' = payment scenario_db @
       [(next_oid scenario_db, scenario_payment ''inst-a'' absent_id 500)] \<and>
     invoice d' = invoice scenario_db"
  using record_payment_no_invoice_check [OF scenario_new_Payment req_to_oid_absent_id,
      where d = scenario_db]
  by (simp add: scenario_find_absent)

section \<open>Amounts that are not positive\<close>

text \<open>
  Claim C4, as stated, fails: a payment of \<open>-5\<close> is accepted, stored, and its identifier
  returned.
\<close>

theorem record_payment_nonpositive_amount_counterexample:
  "record_payment hex_object_id (scenario_request ''inst-a'' absent_id (- 5)) (Some scenario_db) =
     (Inr ''000000000000000000000003'',
      Some (scenario_db\<lparr>payment := [(3, scenario_payment ''inst-a'' absent_id (- 5))],
         next_oid := 4\<rparr>))"
  using record_payment_absent [OF scenario_new_Payment req_to_oid_absent_id
      scenario_find_absent]
  by (simp add: scenario_db_def str_oid_3)

text \<open>
  Claim C4, amended. \<^verbatim>\<open>record_payment\<close> does not check the amount. The only validation
  before the write is that of the Payment schema, on method and provider: when it fails
  the call raises a validation error and the store is as it was; when it passes, a call with
  an amount that is zero or negative stores the payment with that amount and does not end
  in a validation error.
\<close>

theorem record_payment_amount_unchecked:
  assumes "rpr_amount payload \<le> 0"
  shows "case new_Payment (rpr_institution_id payload) (rpr_invoice_id payload)
           (rpr_amount payload) (rpr_method payload) (rpr_provider payload)
           (rpr_txn_ref payload) of
           Inl e \<Rightarrow> e = ValidationError \<and> record_payment parse payload db = (Inl e, db)
         | Inr pay \<Rightarrow> pay_amount pay = rpr_amount payload \<and>
             (\<exists>r d'. record_payment parse payload (Some d) = (r, Some d') \<and>
                r \<noteq> Inl ValidationError \<and>
                payment d' = payment d @ [(next_oid d, pay)])"
proof (cases "new_Payment (rpr_institution_id payload) (rpr_invoice_id payload)
           (rpr_amount payload) (rpr_method payload) (rpr_provider payload)
           (rpr_txn_ref payload)")
  case (Inl e)
  then show ?thesis
    by (simp add: record_payment_invalid new_Payment_error)
next
  case (Inr pay)
  have amt: "pay_amount pay = rpr_amount payload"
    using Inr by (simp add: new_Payment_fields)
  have "\<exists>r d'. record_payment parse payload (Some d) = (r, Some d') \<and> r \<noteq> Inl ValidationError \<and>
                payment d' = payment d @ [(next_oid d, pay)]"
  proof (cases "to_oid parse (rpr_invoice_id payload)")
    case (Inl e)
    then have "e = HTTPException 400 ''Invalid id''"
      by (auto simp: to_oid_def split: option.splits)
    with Inl Inr show ?thesis by (simp add: record_payment_bad_id)
  next
    case oid: (Inr oid)
    show ?thesis
    proof (cases "find_one (invoice d) oid")
      case None
      with oid Inr show ?thesis by (simp add: record_payment_absent)
    next
      case (Some doc)
      with oid Inr show ?thesis by (simp add: record_payment_found)
    qed
  qed
  with Inr amt show ?thesis by simp
qed

theorem record_payment_amount_unchecked_witness:
  "(- 5 :: rat) \<le> 0 \<and>
   (\<exists>r d'. record_payment hex_object_id (scenario_request ''inst-a'' id0 (- 5)) (Some scenario_db) =
        (r, Some d') \<and>
      r \<noteq> Inl ValidationError \<and>
      payment d' = payment scenario_db @
        [(next_oid scenario_db, scenario_payment ''inst-a'' id0 (- 5))])"
proof -
  have h: "rpr_amount (scenario_request ''inst-a'' id0 (- 5)) \<le> 0"
    by (simp add: scenario_request_def)
  show ?thesis
    using record_payment_amount_unchecked [where parse = hex_object_id
        and payload = "scenario_request ''inst-a'' id0 (- 5)"
        and d = scenario_db and db = None, OF h]
    unfolding scenario_new_Payment by simp
qed

section \<open>The tolerance boundary\<close>




section \<open>Progress of the status\<close>



section \<open>Invoices without items\<close>



section \<open>Creating an invoice\<close>

text \<open>
  Claim C8. Every call of \<^verbatim>\<open>create_invoice\<close> that stores an invoice stores it with the
  status unpaid, whatever the items, their total and the payments the store already holds:
  the request has no status field, the constructor receives the constant, and the payment
  collection is neither read nor written. The only other outcome, with the store there, is
  the schema's validation error on the currency, which stores nothing.
\<close>

theorem create_invoice_status_unpaid:
  assumes "create_invoice payload (Some d) = (r, db')"
  shows "(r = Inl ValidationError \<and> db' = Some d) \<or>
         (\<exists>ivc. r = Inr (str_oid (next_oid d)) \<and>
            db' = Some (d\<lparr>invoice := invoice d @ [(next_oid d, ivc)],
                          next_oid := Suc (next_oid d)\<rparr>) \<and>
            status ivc = Unpaid \<and> items ivc = cir_items payload \<and>
            gst_percent ivc = cir_gst_percent payload)"
  using assms
  by (auto simp: create_invoice_def new_Invoice_def create_document_invoice_def
      split: option.splits sum.splits if_splits)

theorem create_invoice_status_unpaid_witness:
  "\<exists>ivc. fst (create_invoice empty_invoice_request (Some scenario_db)) =
       Inr (str_oid (next_oid scenario_db)) \<and>
     snd (create_invoice empty_invoice_request (Some scenario_db)) =
       Some (scenario_db\<lparr>invoice := invoice scenario_db @ [(next_oid scenario_db, ivc)],
          next_oid := Suc (next_oid scenario_db)\<rparr>) \<and>
     status ivc = Unpaid \<and> items ivc = []"
proof -
  have ok: "fst (create_invoice empty_invoice_request (Some scenario_db)) \<noteq>
      Inl ValidationError"
    by (simp add: create_invoice_def empty_invoice_request_def new_Invoice_def currency_of_def
        create_document_invoice_def)
  have its: "cir_items empty_invoice_request = []"
    by (simp add: empty_invoice_request_def)
  show ?thesis
    using create_invoice_status_unpaid [of empty_invoice_request scenario_db
        "fst (create_invoice empty_invoice_request (Some scenario_db))"
        "snd (create_invoice empty_invoice_request (Some scenario_db))"] ok its
    by auto
qed

section \<open>What record_payment leaves alone\<close>

text \<open>
  Claim C9. Whatever \<^verbatim>\<open>record_payment\<close> returns, the invoice collection afterwards holds
  the same documents under the same identifiers in the same order, none added and none
  removed; each differs from what it was at most in its status (institution, student,
  items, tax percentage, currency, due date and metadata are as before), and a document
  whose identifier is not the one the request names is identical. The payments that were
  in the store are still there, unchanged, in front of the new one.
\<close>

theorem record_payment_frame:
  assumes "record_payment parse payload (Some d) = (r, db')"
  shows "\<exists>d'. db' = Some d' \<and>
     list_all2 (\<lambda>a b. fst b = fst a \<and> snd b = (snd a)\<lparr>status := status (snd b)\<rparr> \<and>
         (to_oid parse (rpr_invoice_id payload) \<noteq> Inr (fst a) \<longrightarrow> b = a))
       (invoice d) (invoice d') \<and>
     take (length (payment d)) (payment d') = payment d"
proof (cases "new_Payment (rpr_institution_id payload) (rpr_invoice_id payload)
           (rpr_amount payload) (rpr_method payload) (rpr_provider payload)
           (rpr_txn_ref payload)")
  case (Inl e)
  with assms show ?thesis
    by (auto simp: record_payment_invalid intro!: list.rel_refl)
next
  case (Inr pay)
  show ?thesis
  proof (cases "to_oid parse (rpr_invoice_id payload)")
    case (Inl e)
    with Inr assms show ?thesis
      by (auto simp: record_payment_bad_id intro!: list.rel_refl)
  next
    case oid: (Inr oid)
    show ?thesis
    proof (cases "find_one (invoice d) oid")
      case None
      with oid Inr assms show ?thesis
        by (auto simp: record_payment_absent intro!: list.rel_refl)
    next
      case (Some doc)
      have "list_all2 (\<lambda>a b. fst b = fst a \<and> snd b = (snd a)\<lparr>status := status (snd b)\<rparr> \<and>
         (Inr oid \<noteq> (Inr (fst a) :: error + nat) \<longrightarrow> b = a)) (invoice d)
         (update_one_status (invoice d) oid s)" for s
        using update_one_status_frame [where oid = oid and coll = "invoice d" and s = s] by simp
      with Some oid Inr assms show ?thesis
        by (auto simp: record_payment_found)
    qed
  qed
qed

theorem record_payment_frame_witness:
  "\<exists>d'. snd (record_payment hex_object_id (scenario_request ''inst-a'' id0 500) (Some scenario_db)) = Some d' \<and>
     list_all2 (\<lambda>a b. fst b = fst a \<and> snd b = (snd a)\<lparr>status := status (snd b)\<rparr> \<and>
         (to_oid hex_object_id (rpr_invoice_id (scenario_request ''inst-a'' id0 500)) \<noteq> Inr (fst a) \<longrightarrow>
            b = a))
       (invoice scenario_db) (invoice d') \<and>
     take (length (payment scenario_db)) (payment d') = payment scenario_db"
  using record_payment_frame [where parse = hex_object_id
      and payload = "scenario_request ''inst-a'' id0 500" and d = scenario_db
      and r = "fst (record_payment hex_object_id (scenario_request ''inst-a'' id0 500)
                 (Some scenario_db))"
      and db' = "snd (record_payment hex_object_id (scenario_request ''inst-a'' id0 500)
                 (Some scenario_db))"]
  by simp

section \<open>An identifier that does not parse\<close>

text \<open>
  Claim C10. When the invoice identifier of the request is not a parseable object
  identifier, the payment is written first and the lookup then raises
  \<^verbatim>\<open>HTTPException(400, "Invalid id")\<close>: the caller receives the error and no payment
  identifier, and the store holds the new payment.
\<close>

theorem record_payment_invalid_id_after_write:
  assumes "new_Payment (rpr_institution_id payload) (rpr_invoice_id payload)
     (rpr_amount payload) (rpr_method payload) (rpr_provider payload)
     (rpr_txn_ref payload) = Inr pay"
    and "parse (rpr_invoice_id payload) = None"
  shows "record_payment parse payload (Some d) =
     (Inl (HTTPException 400 ''Invalid id''),
      Some (d\<lparr>payment := payment d @ [(next_oid d, pay)], next_oid := Suc (next_oid d)\<rparr>))"
  using assms by (simp add: record_payment_bad_id to_oid_def)

theorem record_payment_invalid_id_after_write_witness:
  "record_payment hex_object_id (scenario_request ''inst-a'' ''not-an-id'' 500) (Some scenario_db) =
     (Inl (HTTPException 400 ''Invalid id''),
      Some (scenario_db\<lparr>payment := [(3, scenario_payment ''inst-a'' ''not-an-id'' 500)],
         next_oid := 4\<rparr>))"
  using record_payment_invalid_id_after_write
      [where parse = hex_object_id
         and payload = "scenario_request ''inst-a'' ''not-an-id'' 500" and d = scenario_db,
       OF scenario_new_Payment]
  by (simp add: hex_object_id_def scenario_db_def)

end
